theory Spec2Isabelle
  imports Complex_Main "HOL-Library.AList"
begin

section \<open>Data model of \<^verbatim>\<open>src/pages/Index.tsx\<close>\<close>

text \<open>
  \<^verbatim>\<open>Index.tsx\<close> holds three listings of the component \<^verbatim>\<open>BusinessCardMaker\<close>.
  The first listing (lines 1 to 625) is embedded under the source's own names. The
  second listing (lines 625 to 1208) has the same handlers and the same export routine
  (only the font family and the default colours differ). The third listing (lines 1209
  to 1963) has a different export routine; what is taken from it carries the suffix
  \<open>3\<close> where the first listing already uses the name.

  Numbers are JavaScript numbers. Every number of the source is a literal integer of the
  template tables or the result of adding, subtracting or halving such integers, which
  binary floating point does exactly, so numbers are modelled as rationals.

  A JavaScript object with string keys is an association list in insertion order, which
  is the order \<^verbatim>\<open>Object.entries\<close> walks: the spread-and-set
  \<^verbatim>\<open>{...prev, [k]: v}\<close> overwrites an existing key in place and appends a new one,
  which is \<^const>\<open>AList.update\<close>. Keys that look like array indices (which
  JavaScript would move to the front) and keys inherited from \<^verbatim>\<open>Object.prototype\<close>
  are outside the model; the user interface never produces either.

  A string is a list of characters read as UTF-16 code units below 256.
\<close>

datatype align = AlignLeft | AlignCenter | AlignRight

record FieldPosition =
  pos_x :: rat
  pos_y :: rat
  pos_size :: rat
  pos_weight :: string
  pos_width :: rat
  pos_height :: rat
  pos_align :: "align option"

type_synonym Template = "(string \<times> FieldPosition) list"

datatype jsval = Undefined | Null | Str string

datatype error = TypeError

text \<open>The calls made on the 2D context, in the order they are made.\<close>

datatype canvas_op =
    SetFillStyle jsval
  | SetStrokeStyle string
  | SetLineWidth rat
  | SetLineDash "rat list"
  | SetFont string rat string
  | SetTextAlign align
  | FillRect rat rat rat rat
  | StrokeRect rat rat rat rat
  | DrawImage string rat rat rat rat
  | FillText string rat rat
  | BeginPath
  | Arc rat rat rat
  | Fill

text \<open>
  A file handed to the browser by \<^verbatim>\<open>link.click()\<close>: its name, the size of the canvas
  and the calls that had been made on the canvas when \<^verbatim>\<open>toDataURL\<close> read it.
\<close>

record download =
  filename :: string
  canvas_width :: nat
  canvas_height :: nat
  picture :: "canvas_op list"

text \<open>
  The component's state (the four \<^verbatim>\<open>useState\<close> cells and whether
  \<^verbatim>\<open>cardRef.current\<close> is set), together with the files downloaded so far.
\<close>

record world =
  cardData :: "(string \<times> string) list"
  design :: "(string \<times> jsval) list"
  activeField :: "string option"
  showIndicators :: bool
  cardRef :: bool
  downloads :: "download list"

text \<open>
  What the host gives the export: whether \<^verbatim>\<open>getContext('2d')\<close> returns a context, and
  whether the image with a given source finishes loading (so that \<^verbatim>\<open>onload\<close> runs).
\<close>

record env =
  has_ctx :: bool
  img_loads :: "string \<Rightarrow> bool"

definition get_prop :: "(string \<times> jsval) list \<Rightarrow> string \<Rightarrow> jsval" where
  "get_prop obj k = (case map_of obj k of None \<Rightarrow> Undefined | Some v \<Rightarrow> v)"

fun truthy :: "jsval \<Rightarrow> bool" where
  "truthy (Str s) = (s \<noteq> [])"
| "truthy Null = False"
| "truthy Undefined = False"

definition fp :: "rat \<Rightarrow> rat \<Rightarrow> rat \<Rightarrow> string \<Rightarrow> rat \<Rightarrow> rat \<Rightarrow> align option \<Rightarrow> FieldPosition" where
  "fp px py sz wt wd ht al =
     \<lparr>pos_x = px, pos_y = py, pos_size = sz, pos_weight = wt, pos_width = wd,
      pos_height = ht, pos_align = al\<rparr>"

subsection \<open>The template table of the first listing (lines 44 to 77)\<close>

definition modern :: Template where
  "modern =
    [(''name'', fp 40 60 24 ''bold'' 200 30 None),
     (''title'', fp 40 90 16 ''normal'' 180 20 None),
     (''company'', fp 40 115 14 ''normal'' 160 18 None),
     (''phone'', fp 40 155 12 ''normal'' 140 16 None),
     (''email'', fp 40 175 12 ''normal'' 180 16 None),
     (''website'', fp 40 195 12 ''normal'' 160 16 None)]"

definition classic :: Template where
  "classic =
    [(''name'', fp 200 60 22 ''bold'' 160 28 (Some AlignCenter)),
     (''title'', fp 200 85 14 ''normal'' 140 18 (Some AlignCenter)),
     (''company'', fp 200 105 14 ''bold'' 140 18 (Some AlignCenter)),
     (''phone'', fp 60 155 11 ''normal'' 120 15 None),
     (''email'', fp 60 175 11 ''normal'' 140 15 None),
     (''website'', fp 60 195 11 ''normal'' 120 15 None)]"

definition minimal :: Template where
  "minimal =
    [(''name'', fp 200 80 26 ''light'' 180 32 (Some AlignCenter)),
     (''title'', fp 200 105 14 ''normal'' 120 18 (Some AlignCenter)),
     (''company'', fp 200 125 12 ''normal'' 100 16 (Some AlignCenter)),
     (''phone'', fp 280 165 10 ''normal'' 100 14 (Some AlignRight)),
     (''email'', fp 280 180 10 ''normal'' 120 14 (Some AlignRight)),
     (''website'', fp 280 195 10 ''normal'' 100 14 (Some AlignRight))]"

definition executive :: Template where
  "executive =
    [(''name'', fp 60 50 20 ''bold'' 160 26 None),
     (''title'', fp 60 75 13 ''normal'' 140 17 None),
     (''company'', fp 60 95 15 ''bold'' 150 19 None),
     (''phone'', fp 240 155 11 ''normal'' 120 15 (Some AlignRight)),
     (''email'', fp 240 175 11 ''normal'' 140 15 (Some AlignRight)),
     (''website'', fp 240 195 11 ''normal'' 120 15 (Some AlignRight))]"

definition templates :: "(string \<times> Template) list" where
  "templates =
    [(''modern'', modern), (''classic'', classic), (''minimal'', minimal),
     (''executive'', executive)]"

text \<open>\<^verbatim>\<open>templates[design.template]\<close>: a key that is not a string names no template.\<close>

definition template_of :: "(string \<times> 'a) list \<Rightarrow> jsval \<Rightarrow> 'a option" where
  "template_of tbl v = (case v of Str k \<Rightarrow> map_of tbl k | _ \<Rightarrow> None)"

text \<open>The initial state (lines 23 to 40); \<^verbatim>\<open>cardRef\<close> is set once the preview is mounted.\<close>

definition initial_cardData :: "(string \<times> string) list" where
  "initial_cardData =
    [(''name'', ''John Doe''),
     (''title'', ''Creative Director''),
     (''company'', ''Design Studio''),
     (''phone'', ''+1 (555) 123-4567''),
     (''email'', ''john@designstudio.com''),
     (''website'', ''www.designstudio.com'')]"

definition initial_design :: "(string \<times> jsval) list" where
  "initial_design =
    [(''backgroundColor'', Str ''#ffffff''),
     (''textColor'', Str ''#1e293b''),
     (''backgroundImage'', Null),
     (''template'', Str ''modern'')]"

definition initial_world :: world where
  "initial_world =
    \<lparr>cardData = initial_cardData, design = initial_design, activeField = None,
     showIndicators = True, cardRef = True, downloads = []\<rparr>"

definition browser :: env where
  "browser = \<lparr>has_ctx = True, img_loads = (\<lambda>src. True)\<rparr>"

subsection \<open>The mutation handlers (lines 79 to 91)\<close>

definition handleTextChange :: "string \<Rightarrow> string \<Rightarrow> world \<Rightarrow> world" where
  "handleTextChange field val w = w\<lparr>cardData := AList.update field val (cardData w)\<rparr>"

definition handleColorChange :: "string \<Rightarrow> string \<Rightarrow> world \<Rightarrow> world" where
  "handleColorChange type color w = w\<lparr>design := AList.update type (Str color) (design w)\<rparr>"

text \<open>The template buttons (line 472): \<^verbatim>\<open>setDesign(prev => ({ ...prev, template }))\<close>.\<close>

definition selectTemplate :: "string \<Rightarrow> world \<Rightarrow> world" where
  "selectTemplate t w = w\<lparr>design := AList.update ''template'' (Str t) (design w)\<rparr>"

subsection \<open>The export file name (lines 223 and 233)\<close>

text \<open>
  \<^verbatim>\<open>\s\<close> among the code units below 256: tab, line feed, vertical tab, form feed,
  carriage return, space and the no-break space.
\<close>

definition is_space :: "char \<Rightarrow> bool" where
  "is_space c = (of_char c \<in> {9, 10, 11, 12, 13, 32, 160 :: nat})"

text \<open>
  \<^verbatim>\<open>replace(/\s+/g, '-')\<close>: every maximal run of white space becomes one hyphen. The flag
  says that the previous character was white space, so the run has its hyphen already.
\<close>

fun replace_runs :: "bool \<Rightarrow> string \<Rightarrow> string" where
  "replace_runs in_run [] = []"
| "replace_runs in_run (c # cs) =
     (if is_space c then (if in_run then replace_runs True cs else CHR ''-'' # replace_runs True cs)
      else c # replace_runs False cs)"

definition replace_spaces :: "string \<Rightarrow> string" where
  "replace_spaces s = replace_runs False s"

text \<open>
  \<^verbatim>\<open>toLowerCase()\<close> among the code units below 256: A to Z, and the capital letters
  from U+00C0 to U+00DE except the multiplication sign U+00D7, move up by 32.
\<close>

definition lower_char :: "char \<Rightarrow> char" where
  "lower_char c =
     (let n = (of_char c :: nat)
      in if (65 \<le> n \<and> n \<le> 90) \<or> (192 \<le> n \<and> n \<le> 222 \<and> n \<noteq> 215) then char_of (n + 32) else c)"

definition toLowerCase :: "string \<Rightarrow> string" where
  "toLowerCase s = map lower_char s"

text \<open>\<^verbatim>\<open>cardData.name.replace(...)\<close> throws a TypeError when there is no \<^verbatim>\<open>name\<close>.\<close>

definition final_filename :: "(string \<times> string) list \<Rightarrow> error + string" where
  "final_filename cd =
     (case map_of cd ''name'' of
        None \<Rightarrow> Inl TypeError
      | Some n \<Rightarrow> Inr (''business-card-final-'' @ toLowerCase (replace_spaces n) @ ''.png''))"

subsection \<open>\<^verbatim>\<open>downloadFinalCard\<close> of the first listing (lines 184 to 238)\<close>

text \<open>The body of the loop of \<^verbatim>\<open>drawTextOnCanvas\<close> for a field that passes the test.\<close>

definition drawField :: "FieldPosition \<Rightarrow> jsval \<Rightarrow> string \<Rightarrow> canvas_op list" where
  "drawField pos textColor text =
     [SetFont (pos_weight pos) (pos_size pos) ''Arial'', SetFillStyle textColor] @
     (if pos_align pos = Some AlignCenter then
        [SetTextAlign AlignCenter, FillText text (pos_x pos) (pos_y pos)]
      else if pos_align pos = Some AlignRight then
        [SetTextAlign AlignRight, FillText text (pos_x pos) (pos_y pos)]
      else
        [SetTextAlign AlignLeft, FillText text (pos_x pos) (pos_y pos)])"

definition drawEntry :: "Template \<Rightarrow> jsval \<Rightarrow> string \<times> string \<Rightarrow> canvas_op list" where
  "drawEntry template textColor e =
     (case map_of template (fst e) of
        Some pos \<Rightarrow> if snd e \<noteq> [] then drawField pos textColor (snd e) else []
      | None \<Rightarrow> [])"

text \<open>
  \<^verbatim>\<open>template[field]\<close> throws a TypeError at the first entry when
  \<^verbatim>\<open>templates[design.template]\<close> is undefined.
\<close>

definition drawTextOnCanvas ::
  "Template option \<Rightarrow> jsval \<Rightarrow> (string \<times> string) list \<Rightarrow> error + canvas_op list" where
  "drawTextOnCanvas template textColor entries =
     (case template of
        None \<Rightarrow> if entries = [] then Inr [] else Inl TypeError
      | Some t \<Rightarrow> Inr (concat (map (drawEntry t textColor) entries)))"

text \<open>
  The calls that paint the background, or nothing when the background image never loads
  (then \<^verbatim>\<open>onload\<close> never runs and nothing else happens either).
\<close>

definition drawBackground :: "env \<Rightarrow> (string \<times> jsval) list \<Rightarrow> canvas_op list option" where
  "drawBackground e d =
     (case get_prop d ''backgroundImage'' of
        Str src \<Rightarrow>
          if src \<noteq> [] then (if img_loads e src then Some [DrawImage src 0 0 400 240] else None)
          else Some [SetFillStyle (get_prop d ''backgroundColor''), FillRect 0 0 400 240]
      | _ \<Rightarrow> Some [SetFillStyle (get_prop d ''backgroundColor''), FillRect 0 0 400 240])"

definition downloadFinalCard :: "env \<Rightarrow> world \<Rightarrow> error + world" where
  "downloadFinalCard e w =
     (if \<not> cardRef w then Inr w
      else if \<not> has_ctx e then Inr w
      else
        (case drawBackground e (design w) of
           None \<Rightarrow> Inr w
         | Some bg \<Rightarrow>
             (case drawTextOnCanvas (template_of templates (get_prop (design w) ''template''))
                     (get_prop (design w) ''textColor'') (cardData w) of
                Inl err \<Rightarrow> Inl err
              | Inr txt \<Rightarrow>
                  (case final_filename (cardData w) of
                     Inl err \<Rightarrow> Inl err
                   | Inr fn \<Rightarrow>
                       Inr (w\<lparr>downloads := downloads w @
                              [\<lparr>filename = fn, canvas_width = 400, canvas_height = 240,
                                picture = bg @ txt\<rparr>]\<rparr>)))))"

text \<open>
  The files one call of the export hands to the browser: none, or one.
\<close>

definition export_of :: "env \<Rightarrow> world \<Rightarrow> error + download list" where
  "export_of e w =
     (case downloadFinalCard e w of
        Inl err \<Rightarrow> Inl err
      | Inr w' \<Rightarrow> Inr (drop (length (downloads w)) (downloads w')))"

subsection \<open>\<^verbatim>\<open>drawTemplateIndicators\<close> of the first listing (lines 115 to 159)\<close>

text \<open>\<^verbatim>\<open>pos.width || pos.size * 6\<close> and \<^verbatim>\<open>pos.height || pos.size + 8\<close>: zero is falsy.\<close>

definition box_width :: "FieldPosition \<Rightarrow> rat" where
  "box_width pos = (if pos_width pos = 0 then pos_size pos * 6 else pos_width pos)"

definition box_height :: "FieldPosition \<Rightarrow> rat" where
  "box_height pos = (if pos_height pos = 0 then pos_size pos + 8 else pos_height pos)"

definition rectX :: "FieldPosition \<Rightarrow> rat" where
  "rectX pos =
     (if pos_align pos = Some AlignCenter then pos_x pos - (box_width pos / 2) - 4
      else if pos_align pos = Some AlignRight then pos_x pos - box_width pos - 4
      else pos_x pos - 4)"

definition rectY :: "FieldPosition \<Rightarrow> rat" where
  "rectY pos = pos_y pos - pos_size pos - 3"

text \<open>The four corner dots of one field; \<^term>\<open>Arc cx cy r\<close> is a full circle.\<close>

definition indicator :: "FieldPosition \<Rightarrow> canvas_op list" where
  "indicator pos =
     [SetFillStyle (Str ''rgba(0, 0, 0, 0.15)''),
      BeginPath, Arc (rectX pos) (rectY pos) 2, Fill,
      BeginPath, Arc (rectX pos + box_width pos + 8) (rectY pos) 2, Fill,
      BeginPath, Arc (rectX pos) (rectY pos + box_height pos + 6) 2, Fill,
      BeginPath, Arc (rectX pos + box_width pos + 8) (rectY pos + box_height pos + 6) 2, Fill]"

text \<open>\<^verbatim>\<open>Object.entries(template)\<close> throws a TypeError when the template is undefined.\<close>

definition drawTemplateIndicators :: "Template option \<Rightarrow> error + canvas_op list" where
  "drawTemplateIndicators template =
     (case template of
        None \<Rightarrow> Inl TypeError
      | Some t \<Rightarrow>
          Inr ([SetStrokeStyle ''rgba(0, 0, 0, 0.08)'', SetLineWidth 1, SetLineDash [],
                SetFillStyle (Str ''rgba(0, 0, 0, 0.02)'')] @
               concat (map (\<lambda>entry. indicator (snd entry)) t)))"

subsection \<open>Kinds of canvas calls\<close>

text \<open>A call that paints the whole 400 by 240 canvas.\<close>

fun covers_canvas :: "canvas_op \<Rightarrow> bool" where
  "covers_canvas (FillRect px py wd ht) = (px = 0 \<and> py = 0 \<and> wd = 400 \<and> ht = 240)"
| "covers_canvas (DrawImage src px py wd ht) = (px = 0 \<and> py = 0 \<and> wd = 400 \<and> ht = 240)"
| "covers_canvas _ = False"

fun is_fillText :: "canvas_op \<Rightarrow> bool" where
  "is_fillText (FillText t px py) = True"
| "is_fillText _ = False"

text \<open>The calls that set up and paint a line of text.\<close>

fun text_op :: "canvas_op \<Rightarrow> bool" where
  "text_op (SetFont wt sz fam) = True"
| "text_op (SetFillStyle c) = True"
| "text_op (SetTextAlign a) = True"
| "text_op (FillText t px py) = True"
| "text_op _ = False"

text \<open>
  The marks that only the guide routines paint: corner dots (a path, an arc, a fill),
  outlines, and filled rectangles smaller than the canvas.
\<close>

fun guide_mark :: "canvas_op \<Rightarrow> bool" where
  "guide_mark BeginPath = True"
| "guide_mark (Arc cx cy r) = True"
| "guide_mark Fill = True"
| "guide_mark (StrokeRect px py wd ht) = True"
| "guide_mark (SetStrokeStyle c) = True"
| "guide_mark (SetLineWidth n) = True"
| "guide_mark (SetLineDash ds) = True"
| "guide_mark (FillRect px py wd ht) = (\<not> (px = 0 \<and> py = 0 \<and> wd = 400 \<and> ht = 240))"
| "guide_mark _ = False"

text \<open>The file exported from the initial state.\<close>

definition initial_download :: download where
  "initial_download =
     \<lparr>filename = ''business-card-final-john-doe.png'', canvas_width = 400, canvas_height = 240,
      picture =
        [SetFillStyle (Str ''#ffffff''), FillRect 0 0 400 240,
         SetFont ''bold'' 24 ''Arial'', SetFillStyle (Str ''#1e293b''),
         SetTextAlign AlignLeft, FillText ''John Doe'' 40 60,
         SetFont ''normal'' 16 ''Arial'', SetFillStyle (Str ''#1e293b''),
         SetTextAlign AlignLeft, FillText ''Creative Director'' 40 90,
         SetFont ''normal'' 14 ''Arial'', SetFillStyle (Str ''#1e293b''),
         SetTextAlign AlignLeft, FillText ''Design Studio'' 40 115,
         SetFont ''normal'' 12 ''Arial'', SetFillStyle (Str ''#1e293b''),
         SetTextAlign AlignLeft, FillText ''+1 (555) 123-4567'' 40 155,
         SetFont ''normal'' 12 ''Arial'', SetFillStyle (Str ''#1e293b''),
         SetTextAlign AlignLeft, FillText ''john@designstudio.com'' 40 175,
         SetFont ''normal'' 12 ''Arial'', SetFillStyle (Str ''#1e293b''),
         SetTextAlign AlignLeft, FillText ''www.designstudio.com'' 40 195]\<rparr>"

section \<open>The third listing (lines 1209 to 1963)\<close>

text \<open>
  In the third listing a template also carries a display name and a description, so an
  entry of a template is a string or a field position. Every template literal gives the
  key \<^verbatim>\<open>name\<close> twice, first the display name and later the position of the name field.
  An object literal keeps one property for a key given twice: the place of the first
  occurrence, with the value of the last.
\<close>

datatype entry3 = Meta string | Pos FieldPosition

type_synonym Template3 = "(string \<times> entry3) list"

definition object_literal :: "(string \<times> 'a) list \<Rightarrow> (string \<times> 'a) list" where
  "object_literal kvs = foldl (\<lambda>obj kv. AList.update (fst kv) (snd kv) obj) [] kvs"

definition modern3 :: Template3 where
  "modern3 = object_literal
    [(''name'', Meta ''Modern Professional''),
     (''description'', Meta ''Clean left-aligned layout with bold typography''),
     (''name'', Pos (fp 40 60 24 ''bold'' 200 30 None)),
     (''title'', Pos (fp 40 90 16 ''normal'' 180 20 None)),
     (''company'', Pos (fp 40 115 14 ''normal'' 160 18 None)),
     (''phone'', Pos (fp 40 155 12 ''normal'' 140 16 None)),
     (''email'', Pos (fp 40 175 12 ''normal'' 180 16 None)),
     (''website'', Pos (fp 40 195 12 ''normal'' 160 16 None))]"

definition classic3 :: Template3 where
  "classic3 = object_literal
    [(''name'', Meta ''Classic Centered''),
     (''description'', Meta ''Traditional centered design with elegant spacing''),
     (''name'', Pos (fp 200 60 22 ''bold'' 160 28 (Some AlignCenter))),
     (''title'', Pos (fp 200 85 14 ''normal'' 140 18 (Some AlignCenter))),
     (''company'', Pos (fp 200 105 14 ''bold'' 140 18 (Some AlignCenter))),
     (''phone'', Pos (fp 60 155 11 ''normal'' 120 15 None)),
     (''email'', Pos (fp 60 175 11 ''normal'' 140 15 None)),
     (''website'', Pos (fp 60 195 11 ''normal'' 120 15 None))]"

definition minimal3 :: Template3 where
  "minimal3 = object_literal
    [(''name'', Meta ''Minimal Elegant''),
     (''description'', Meta ''Spacious layout with right-aligned contact info''),
     (''name'', Pos (fp 200 80 26 ''light'' 180 32 (Some AlignCenter))),
     (''title'', Pos (fp 200 105 14 ''normal'' 120 18 (Some AlignCenter))),
     (''company'', Pos (fp 200 125 12 ''normal'' 100 16 (Some AlignCenter))),
     (''phone'', Pos (fp 360 165 10 ''normal'' 100 14 (Some AlignRight))),
     (''email'', Pos (fp 360 180 10 ''normal'' 120 14 (Some AlignRight))),
     (''website'', Pos (fp 360 195 10 ''normal'' 100 14 (Some AlignRight)))]"

definition executive3 :: Template3 where
  "executive3 = object_literal
    [(''name'', Meta ''Executive Bold''),
     (''description'', Meta ''Corporate style with strong hierarchy''),
     (''name'', Pos (fp 60 50 20 ''bold'' 160 26 None)),
     (''title'', Pos (fp 60 75 13 ''normal'' 140 17 None)),
     (''company'', Pos (fp 60 95 15 ''bold'' 150 19 None)),
     (''phone'', Pos (fp 340 155 11 ''normal'' 120 15 (Some AlignRight))),
     (''email'', Pos (fp 340 175 11 ''normal'' 140 15 (Some AlignRight))),
     (''website'', Pos (fp 340 195 11 ''normal'' 120 15 (Some AlignRight)))]"

definition creative3 :: Template3 where
  "creative3 = object_literal
    [(''name'', Meta ''Creative Asymmetric''),
     (''description'', Meta ''Dynamic layout with creative positioning''),
     (''name'', Pos (fp 50 70 28 ''bold'' 220 34 None)),
     (''title'', Pos (fp 50 100 16 ''normal'' 180 20 None)),
     (''company'', Pos (fp 280 50 14 ''bold'' 100 18 (Some AlignRight))),
     (''phone'', Pos (fp 50 160 12 ''normal'' 140 16 None)),
     (''email'', Pos (fp 50 180 12 ''normal'' 180 16 None)),
     (''website'', Pos (fp 280 200 12 ''normal'' 100 16 (Some AlignRight)))]"

definition corporate3 :: Template3 where
  "corporate3 = object_literal
    [(''name'', Meta ''Corporate Standard''),
     (''description'', Meta ''Professional business layout with clear hierarchy''),
     (''name'', Pos (fp 40 55 22 ''bold'' 180 28 None)),
     (''title'', Pos (fp 40 80 14 ''normal'' 160 18 None)),
     (''company'', Pos (fp 40 100 16 ''bold'' 170 20 None)),
     (''phone'', Pos (fp 40 140 11 ''normal'' 130 15 None)),
     (''email'', Pos (fp 40 160 11 ''normal'' 170 15 None)),
     (''website'', Pos (fp 40 180 11 ''normal'' 150 15 None))]"

definition boutique3 :: Template3 where
  "boutique3 = object_literal
    [(''name'', Meta ''Boutique Luxury''),
     (''description'', Meta ''Elegant centered layout for premium brands''),
     (''name'', Pos (fp 200 90 24 ''light'' 200 30 (Some AlignCenter))),
     (''title'', Pos (fp 200 115 13 ''normal'' 150 17 (Some AlignCenter))),
     (''company'', Pos (fp 200 135 11 ''normal'' 120 15 (Some AlignCenter))),
     (''phone'', Pos (fp 200 170 10 ''normal'' 110 14 (Some AlignCenter))),
     (''email'', Pos (fp 200 185 10 ''normal'' 140 14 (Some AlignCenter))),
     (''website'', Pos (fp 200 200 10 ''normal'' 120 14 (Some AlignCenter)))]"

definition startup3 :: Template3 where
  "startup3 = object_literal
    [(''name'', Meta ''Startup Dynamic''),
     (''description'', Meta ''Modern tech-focused layout with energy''),
     (''name'', Pos (fp 45 65 26 ''bold'' 210 32 None)),
     (''title'', Pos (fp 45 95 15 ''normal'' 170 19 None)),
     (''company'', Pos (fp 45 120 13 ''bold'' 150 17 None)),
     (''phone'', Pos (fp 320 150 11 ''normal'' 120 15 (Some AlignRight))),
     (''email'', Pos (fp 320 170 11 ''normal'' 150 15 (Some AlignRight))),
     (''website'', Pos (fp 320 190 11 ''normal'' 130 15 (Some AlignRight)))]"

definition templates3 :: "(string \<times> Template3) list" where
  "templates3 =
    [(''modern'', modern3), (''classic'', classic3), (''minimal'', minimal3),
     (''executive'', executive3), (''creative'', creative3), (''corporate'', corporate3),
     (''boutique'', boutique3), (''startup'', startup3)]"

definition initial_design3 :: "(string \<times> jsval) list" where
  "initial_design3 =
    [(''backgroundColor'', Str ''#ffffff''),
     (''textColor'', Str ''#1e293b''),
     (''backgroundImage'', Null),
     (''logoImage'', Null),
     (''template'', Str ''modern'')]"

definition initial_world3 :: world where
  "initial_world3 =
    \<lparr>cardData = initial_cardData, design = initial_design3, activeField = None,
     showIndicators = True, cardRef = True, downloads = []\<rparr>"

subsection \<open>\<^verbatim>\<open>downloadFinalCard\<close> of the third listing (lines 1448 to 1516)\<close>

definition drawField3 :: "FieldPosition \<Rightarrow> jsval \<Rightarrow> string \<Rightarrow> canvas_op list" where
  "drawField3 pos textColor text =
     [SetFont (pos_weight pos) (pos_size pos) ''Arial, sans-serif'', SetFillStyle textColor] @
     (if pos_align pos = Some AlignCenter then
        [SetTextAlign AlignCenter, FillText text (pos_x pos) (pos_y pos)]
      else if pos_align pos = Some AlignRight then
        [SetTextAlign AlignRight, FillText text (pos_x pos) (pos_y pos)]
      else
        [SetTextAlign AlignLeft, FillText text (pos_x pos) (pos_y pos)])"

text \<open>
  The test of \<^verbatim>\<open>drawText\<close> (line 1475) is
  \<^verbatim>\<open>template[field] && text && field !== 'name' && field !== 'description'\<close>.
  Were a non-empty string entry to pass it, its weight, size and position would be
  undefined: the context ignores such a font, and \<^verbatim>\<open>fillText\<close> at undefined coordinates
  paints nothing, which leaves the fill style and the (left) alignment being set. No
  template of the table has such an entry.
\<close>

definition drawEntry3 :: "Template3 \<Rightarrow> jsval \<Rightarrow> string \<times> string \<Rightarrow> canvas_op list" where
  "drawEntry3 template textColor e =
     (case map_of template (fst e) of
        None \<Rightarrow> []
      | Some (Pos pos) \<Rightarrow>
          if snd e \<noteq> [] \<and> fst e \<noteq> ''name'' \<and> fst e \<noteq> ''description''
          then drawField3 pos textColor (snd e) else []
      | Some (Meta m) \<Rightarrow>
          if m \<noteq> [] \<and> snd e \<noteq> [] \<and> fst e \<noteq> ''name'' \<and> fst e \<noteq> ''description''
          then [SetFillStyle textColor, SetTextAlign AlignLeft] else [])"

definition drawText ::
  "Template3 option \<Rightarrow> jsval \<Rightarrow> (string \<times> string) list \<Rightarrow> error + canvas_op list" where
  "drawText template textColor entries =
     (case template of
        None \<Rightarrow> if entries = [] then Inr [] else Inl TypeError
      | Some t \<Rightarrow> Inr (concat (map (drawEntry3 t textColor) entries)))"

text \<open>
  \<^verbatim>\<open>drawFinalCard\<close> returns what it has drawn by the time it returns. With a logo set it
  only starts loading the logo: the logo and the text are drawn by the \<^verbatim>\<open>onload\<close>
  handler, which runs after the caller has read the canvas and started the download.
\<close>

definition drawFinalCard ::
  "Template3 option \<Rightarrow> (string \<times> jsval) list \<Rightarrow> (string \<times> string) list \<Rightarrow> error + canvas_op list" where
  "drawFinalCard template d cd =
     (if truthy (get_prop d ''logoImage'') then Inr []
      else drawText template (get_prop d ''textColor'') cd)"

definition final_filename3 :: "(string \<times> string) list \<Rightarrow> error + string" where
  "final_filename3 cd =
     (case map_of cd ''name'' of
        None \<Rightarrow> Inl TypeError
      | Some n \<Rightarrow> Inr (''business-card-'' @ toLowerCase (replace_spaces n) @ ''.png''))"

definition downloadFinalCard3 :: "env \<Rightarrow> world \<Rightarrow> error + world" where
  "downloadFinalCard3 e w =
     (if \<not> has_ctx e then Inr w
      else
        (case drawBackground e (design w) of
           None \<Rightarrow> Inr w
         | Some bg \<Rightarrow>
             (case drawFinalCard (template_of templates3 (get_prop (design w) ''template''))
                     (design w) (cardData w) of
                Inl err \<Rightarrow> Inl err
              | Inr tx \<Rightarrow>
                  (case final_filename3 (cardData w) of
                     Inl err \<Rightarrow> Inl err
                   | Inr fn \<Rightarrow>
                       Inr (w\<lparr>downloads := downloads w @
                              [\<lparr>filename = fn, canvas_width = 400, canvas_height = 240,
                                picture = bg @ tx\<rparr>]\<rparr>)))))"

definition export_of3 :: "env \<Rightarrow> world \<Rightarrow> error + download list" where
  "export_of3 e w =
     (case downloadFinalCard3 e w of
        Inl err \<Rightarrow> Inl err
      | Inr w' \<Rightarrow> Inr (drop (length (downloads w)) (downloads w')))"

text \<open>The file the third listing exports from its initial state.\<close>

definition initial_download3 :: download where
  "initial_download3 =
     \<lparr>filename = ''business-card-john-doe.png'', canvas_width = 400, canvas_height = 240,
      picture =
        [SetFillStyle (Str ''#ffffff''), FillRect 0 0 400 240,
         SetFont ''normal'' 16 ''Arial, sans-serif'', SetFillStyle (Str ''#1e293b''),
         SetTextAlign AlignLeft, FillText ''Creative Director'' 40 90,
         SetFont ''normal'' 14 ''Arial, sans-serif'', SetFillStyle (Str ''#1e293b''),
         SetTextAlign AlignLeft, FillText ''Design Studio'' 40 115,
         SetFont ''normal'' 12 ''Arial, sans-serif'', SetFillStyle (Str ''#1e293b''),
         SetTextAlign AlignLeft, FillText ''+1 (555) 123-4567'' 40 155,
         SetFont ''normal'' 12 ''Arial, sans-serif'', SetFillStyle (Str ''#1e293b''),
         SetTextAlign AlignLeft, FillText ''john@designstudio.com'' 40 175,
         SetFont ''normal'' 12 ''Arial, sans-serif'', SetFillStyle (Str ''#1e293b''),
         SetTextAlign AlignLeft, FillText ''www.designstudio.com'' 40 195]\<rparr>"

text \<open>The names of the files one call of the export produces.\<close>

definition exported_names :: "env \<Rightarrow> world \<Rightarrow> error + string list" where
  "exported_names e w =
     (case export_of e w of Inl err \<Rightarrow> Inl err | Inr ds \<Rightarrow> Inr (map filename ds))"

text \<open>
  The origin as the specification words it: the anchor, less half the box width for
  centred text, less the whole box width for right-aligned text.
\<close>

definition claimed_origin :: "FieldPosition \<Rightarrow> rat" where
  "claimed_origin pos =
     (case pos_align pos of
        Some AlignCenter \<Rightarrow> pos_x pos - pos_width pos / 2
      | Some AlignRight \<Rightarrow> pos_x pos - pos_width pos
      | _ \<Rightarrow> pos_x pos)"

section \<open>The pipeline history of the specification (sections 3, 4.5 and 9)\<close>

text \<open>
  The repository declares the Pipeline Engine (\<^verbatim>\<open>PipelineState\<close>, \<^verbatim>\<open>HistoryState\<close>
  and \<^verbatim>\<open>PipelineSnapshot\<close> in \<^verbatim>\<open>pipeline.types.ts\<close>; \<^verbatim>\<open>updateFields\<close>,
  \<^verbatim>\<open>updateDesign\<close>, \<^verbatim>\<open>undo\<close> and \<^verbatim>\<open>redo\<close> as signatures) but holds no
  implementation of it, so this section follows the specification. Time is a natural
  number handed to every operation that takes a snapshot. Scheduling of renders is left
  out: it does not touch the field values, the design or the history.
\<close>

text \<open>Modelled from the spec: the status of the pipeline (section 4.5); the engine is missing.\<close>

datatype PipelineStatus = Idle | Loading | Ready | Generating | Rendering | Exporting | ErrorStatus

text \<open>
  Modelled from the spec: a HistorySnapshot, the capture of fields, design and timestamp
  (section 3); the engine that takes snapshots is missing.
\<close>

record HistorySnapshot =
  snap_fields :: "(string \<times> string) list"
  snap_design :: "(string \<times> string) list"
  timestamp :: nat

text \<open>
  Modelled from the spec: the part of PipelineState that mutations and history touch
  (status, field values keyed by field id, design, dirty flag, the past and future
  stacks, newest first); the engine that owns it is missing.
\<close>

record PipelineState =
  status :: PipelineStatus
  fieldValues :: "(string \<times> string) list"
  designState :: "(string \<times> string) list"
  isDirty :: bool
  past :: "HistorySnapshot list"
  future :: "HistorySnapshot list"

text \<open>Modelled from the spec: taking a snapshot of the current fields and design; the engine is missing.\<close>

definition snapshot :: "nat \<Rightarrow> PipelineState \<Rightarrow> HistorySnapshot" where
  "snapshot now s = \<lparr>snap_fields = fieldValues s, snap_design = designState s, timestamp = now\<rparr>"

text \<open>
  Modelled from the spec: \<^verbatim>\<open>pushHistory\<close>, missing from the repository. It pushes a
  snapshot of the state as it is on the past stack and clears the future stack
  (section 3). With a cap \<open>k\<close> the past stack keeps its \<open>k\<close> newest snapshots and drops the
  oldest (section 9); without a cap it is unbounded.
\<close>

definition pushHistory :: "nat option \<Rightarrow> nat \<Rightarrow> PipelineState \<Rightarrow> PipelineState" where
  "pushHistory cap now s =
     s\<lparr>past := (case cap of None \<Rightarrow> snapshot now s # past s
                 | Some k \<Rightarrow> take k (snapshot now s # past s)),
       future := []\<rparr>"

text \<open>
  Modelled from the spec: \<^verbatim>\<open>updateFields\<close>, missing from the repository. It merges the
  values into the current ones, marks the state dirty and pushes a snapshot of the prior
  state (section 4.5).
\<close>

definition updateFields ::
  "nat option \<Rightarrow> nat \<Rightarrow> (string \<times> string) list \<Rightarrow> PipelineState \<Rightarrow> PipelineState" where
  "updateFields cap now vals s =
     (pushHistory cap now s)\<lparr>fieldValues := AList.merge (fieldValues s) vals, isDirty := True\<rparr>"

text \<open>
  Modelled from the spec: \<^verbatim>\<open>updateDesign\<close>, missing from the repository. It merges the
  patch into the design, marks the state dirty and pushes a snapshot of the prior state
  (section 4.5).
\<close>

definition updateDesign ::
  "nat option \<Rightarrow> nat \<Rightarrow> (string \<times> string) list \<Rightarrow> PipelineState \<Rightarrow> PipelineState" where
  "updateDesign cap now patch s =
     (pushHistory cap now s)\<lparr>designState := AList.merge (designState s) patch, isDirty := True\<rparr>"

text \<open>
  Modelled from the spec: \<^verbatim>\<open>undo\<close>, missing from the repository. It pops the newest
  snapshot of the past stack, pushes a snapshot of the current state on the future stack
  and replaces fields and design wholesale by the popped snapshot; with an empty past
  stack it does nothing (sections 4.5 and 8).
\<close>

definition undo :: "nat \<Rightarrow> PipelineState \<Rightarrow> PipelineState" where
  "undo now s =
     (case past s of
        [] \<Rightarrow> s
      | p # ps \<Rightarrow>
          s\<lparr>fieldValues := snap_fields p, designState := snap_design p, past := ps,
            future := snapshot now s # future s\<rparr>)"

text \<open>
  Modelled from the spec: \<^verbatim>\<open>redo\<close>, missing from the repository. It pops the newest
  snapshot of the future stack, pushes a snapshot of the current state on the past stack
  and replaces fields and design wholesale by the popped snapshot; with an empty future
  stack it does nothing (sections 4.5 and 8).
\<close>

definition redo :: "nat \<Rightarrow> PipelineState \<Rightarrow> PipelineState" where
  "redo now s =
     (case future s of
        [] \<Rightarrow> s
      | f # fs \<Rightarrow>
          s\<lparr>fieldValues := snap_fields f, designState := snap_design f, future := fs,
            past := snapshot now s # past s\<rparr>)"

text \<open>
  Modelled from the spec: \<^verbatim>\<open>initialize\<close>, missing from the repository, after the widget
  and the preset have given the default fields and design: status ready, and the initial
  snapshot pushed (section 4.5).
\<close>

definition initialize ::
  "nat \<Rightarrow> (string \<times> string) list \<Rightarrow> (string \<times> string) list \<Rightarrow> PipelineState" where
  "initialize now fs ds =
     \<lparr>status = Ready, fieldValues = fs, designState = ds, isDirty = False,
      past = [\<lparr>snap_fields = fs, snap_design = ds, timestamp = now\<rparr>], future = []\<rparr>"

text \<open>A field or design mutation, and sequences of timed mutations, undos and redos.\<close>

datatype mutation = UpdateFields "(string \<times> string) list" | UpdateDesign "(string \<times> string) list"

fun mutate :: "nat option \<Rightarrow> nat \<times> mutation \<Rightarrow> PipelineState \<Rightarrow> PipelineState" where
  "mutate cap (now, UpdateFields vals) s = updateFields cap now vals s"
| "mutate cap (now, UpdateDesign patch) s = updateDesign cap now patch s"

fun mutate_all :: "nat option \<Rightarrow> (nat \<times> mutation) list \<Rightarrow> PipelineState \<Rightarrow> PipelineState" where
  "mutate_all cap [] s = s"
| "mutate_all cap (m # ms) s = mutate_all cap ms (mutate cap m s)"

fun undos :: "nat list \<Rightarrow> PipelineState \<Rightarrow> PipelineState" where
  "undos [] s = s"
| "undos (t # ts) s = undos ts (undo t s)"

fun redos :: "nat list \<Rightarrow> PipelineState \<Rightarrow> PipelineState" where
  "redos [] s = s"
| "redos (t # ts) s = redos ts (redo t s)"

text \<open>
  What a snapshot captures apart from the time it was taken, and a state with the
  times of its snapshots forgotten.
\<close>

definition snap_content :: "HistorySnapshot \<Rightarrow> (string \<times> string) list \<times> (string \<times> string) list" where
  "snap_content h = (snap_fields h, snap_design h)"

definition forget_times ::
  "PipelineState \<Rightarrow> PipelineStatus \<times> (string \<times> string) list \<times> (string \<times> string) list \<times> bool
     \<times> ((string \<times> string) list \<times> (string \<times> string) list) list
     \<times> ((string \<times> string) list \<times> (string \<times> string) list) list" where
  "forget_times s =
     (status s, fieldValues s, designState s, isDirty s, map snap_content (past s),
      map snap_content (future s))"

text \<open>
  The whole history in order of time: the past from the oldest on, the current fields
  and design, the future. Undo and redo move along it without changing it.
\<close>

definition timeline ::
  "PipelineState \<Rightarrow> ((string \<times> string) list \<times> (string \<times> string) list) list" where
  "timeline s =
     rev (map snap_content (past s)) @ (fieldValues s, designState s) # map snap_content (future s)"

section \<open>Shape of the export\<close>

lemma export_of_eq:
  "export_of e w =
     (if \<not> cardRef w \<or> \<not> has_ctx e then Inr []
      else
        (case drawBackground e (design w) of
           None \<Rightarrow> Inr []
         | Some bg \<Rightarrow>
             (case drawTextOnCanvas (template_of templates (get_prop (design w) ''template''))
                     (get_prop (design w) ''textColor'') (cardData w) of
                Inl err \<Rightarrow> Inl err
              | Inr txt \<Rightarrow>
                  (case final_filename (cardData w) of
                     Inl err \<Rightarrow> Inl err
                   | Inr fn \<Rightarrow>
                       Inr [\<lparr>filename = fn, canvas_width = 400, canvas_height = 240,
                             picture = bg @ txt\<rparr>]))))"
  by (simp add: export_of_def downloadFinalCard_def split: option.splits sum.splits)

lemma export_of_shape:
  assumes "export_of e w = Inr ds" and "d \<in> set ds"
  obtains bg tx where
    "drawBackground e (design w) = Some bg"
    "drawTextOnCanvas (template_of templates (get_prop (design w) ''template''))
       (get_prop (design w) ''textColor'') (cardData w) = Inr tx"
    "final_filename (cardData w) = Inr (filename d)"
    "picture d = bg @ tx" "canvas_width d = 400" "canvas_height d = 240" "ds = [d]"
  using assms unfolding export_of_eq
  by (auto split: if_splits option.splits sum.splits)

lemma drawBackground_shape:
  assumes "drawBackground e d = Some bg"
  shows "(\<exists>src. bg = [DrawImage src 0 0 400 240]) \<or> (\<exists>c. bg = [SetFillStyle c, FillRect 0 0 400 240])"
  using assms by (auto simp: drawBackground_def split: jsval.splits if_splits)

lemma drawField_ops:
  "drawField pos c t =
     [SetFont (pos_weight pos) (pos_size pos) ''Arial'', SetFillStyle c,
      SetTextAlign (case pos_align pos of None \<Rightarrow> AlignLeft | Some a \<Rightarrow> a),
      FillText t (pos_x pos) (pos_y pos)]"
  by (cases "pos_align pos"; cases "the (pos_align pos)"; simp add: drawField_def)

lemma drawEntry_text_op: "op \<in> set (drawEntry t c entry) \<Longrightarrow> text_op op"
  by (auto simp: drawEntry_def drawField_ops split: option.splits if_splits)

lemma drawTextOnCanvas_text_op:
  assumes "drawTextOnCanvas tm c es = Inr txt" and "op \<in> set txt"
  shows "text_op op"
  using assms
  by (auto simp: drawTextOnCanvas_def split: option.splits if_splits dest: drawEntry_text_op)

lemma drawTextOnCanvas_fillText:
  assumes "drawTextOnCanvas tm c es = Inr txt" and "FillText t px py \<in> set txt"
  shows "\<exists>tmpl f pos. tm = Some tmpl \<and> (f, t) \<in> set es \<and> map_of tmpl f = Some pos
           \<and> px = pos_x pos \<and> py = pos_y pos"
proof -
  from assms obtain tmpl where tm: "tm = Some tmpl" and tx: "txt = concat (map (drawEntry tmpl c) es)"
    by (auto simp: drawTextOnCanvas_def split: option.splits if_splits)
  from assms(2) tx obtain entry where en: "entry \<in> set es" and op: "FillText t px py \<in> set (drawEntry tmpl c entry)"
    by auto
  from op obtain pos where "map_of tmpl (fst entry) = Some pos" "snd entry = t"
      "px = pos_x pos" "py = pos_y pos"
    by (cases "map_of tmpl (fst entry)") (auto simp: drawEntry_def drawField_ops split: if_splits)
  with tm en show ?thesis
    by (cases entry) auto
qed

lemma drawTextOnCanvas_draws:
  assumes "drawTextOnCanvas tm c es = Inr txt" and "(f, t) \<in> set es" and "t \<noteq> []"
    and "tm = Some tmpl" and "map_of tmpl f = Some pos"
  shows "FillText t (pos_x pos) (pos_y pos) \<in> set txt"
  using assms
  by (force simp: drawTextOnCanvas_def drawEntry_def drawField_ops)

lemma initial_export: "export_of browser initial_world = Inr [initial_download]"
  by code_simp

lemma initial_run:
  "downloadFinalCard browser initial_world = Inr (initial_world\<lparr>downloads := [initial_download]\<rparr>)"
  by code_simp

lemma text_op_no_guide: "text_op op \<Longrightarrow> \<not> guide_mark op"
  by (cases op) auto

lemma text_op_no_cover: "text_op op \<Longrightarrow> \<not> covers_canvas op"
  by (cases op) auto

section \<open>Layout\<close>

text \<open>
  C1, as the specification states it, fails: for the centred \<^verbatim>\<open>name\<close> field of the
  \<^verbatim>\<open>classic\<close> template (anchor 200, box width 160) the stated origin is 120, but the
  text is drawn at 200 and the guide dots start at 116.
\<close>

theorem centred_origin_counterexample:
  "map_of classic ''name'' = Some (fp 200 60 22 ''bold'' 160 28 (Some AlignCenter))
   \<and> claimed_origin (fp 200 60 22 ''bold'' 160 28 (Some AlignCenter)) = 120
   \<and> drawField (fp 200 60 22 ''bold'' 160 28 (Some AlignCenter)) (Str ''#1e293b'') ''John Doe''
       = [SetFont ''bold'' 22 ''Arial'', SetFillStyle (Str ''#1e293b''),
          SetTextAlign AlignCenter, FillText ''John Doe'' 200 60]
   \<and> rectX (fp 200 60 22 ''bold'' 160 28 (Some AlignCenter)) = 116"
  by code_simp

text \<open>
  C1, amended. For every field configuration with anchor \<open>(x, y)\<close>, the text is drawn by
  one \<^verbatim>\<open>fillText\<close> call at \<open>(x, y)\<close> itself, whatever the alignment, with the context's
  text alignment set to the field's alignment (left when unspecified). The guide dots
  of the field start at \<open>x - 4\<close> for left or unspecified alignment, at
  \<open>x - w/2 - 4\<close> for centred and at \<open>x - w - 4\<close> for right alignment, where \<open>w\<close> is the
  box width (six times the font size when the width is 0). Both are functions of the
  field configuration alone.
\<close>

theorem draw_origin:
  "drawField pos c t =
     [SetFont (pos_weight pos) (pos_size pos) ''Arial'', SetFillStyle c,
      SetTextAlign (case pos_align pos of None \<Rightarrow> AlignLeft | Some a \<Rightarrow> a),
      FillText t (pos_x pos) (pos_y pos)]
   \<and> rectX pos =
       (case pos_align pos of
          Some AlignCenter \<Rightarrow> pos_x pos - box_width pos / 2 - 4
        | Some AlignRight \<Rightarrow> pos_x pos - box_width pos - 4
        | _ \<Rightarrow> pos_x pos - 4)
   \<and> Arc (rectX pos) (rectY pos) 2 \<in> set (indicator pos)"
proof -
  have "rectX pos =
       (case pos_align pos of
          Some AlignCenter \<Rightarrow> pos_x pos - box_width pos / 2 - 4
        | Some AlignRight \<Rightarrow> pos_x pos - box_width pos - 4
        | _ \<Rightarrow> pos_x pos - 4)"
    by (simp add: rectX_def split: option.splits align.splits)
  then show ?thesis
    by (simp add: drawField_ops indicator_def)
qed

text \<open>
  C2, as the specification states it, fails: the export takes no scale factor. The one
  file it produces from the initial state (template \<^verbatim>\<open>modern\<close>) has the name at
  \<open>(40, 60)\<close> on a 400 by 240 canvas, and nothing at \<open>(80, 120)\<close>.
\<close>

theorem scale_counterexample:
  "export_of browser initial_world = Inr [initial_download]
   \<and> canvas_width initial_download = 400 \<and> canvas_height initial_download = 240
   \<and> FillText ''John Doe'' 40 60 \<in> set (picture initial_download)
   \<and> FillText ''John Doe'' 80 120 \<notin> set (picture initial_download)"
  by code_simp

text \<open>
  C2, amended. The export has no scale factor: every exported file is drawn on a 400 by
  240 canvas, and every text it holds is the value of a card data entry drawn at the
  unscaled anchor that the active template gives to that entry's field. For the
  \<^verbatim>\<open>modern\<close> template a non-empty \<^verbatim>\<open>name\<close> is drawn at exactly \<open>(40, 60)\<close>.
\<close>

theorem export_unscaled:
  assumes "export_of e w = Inr ds" and "d \<in> set ds"
  shows "canvas_width d = 400 \<and> canvas_height d = 240
    \<and> (\<forall>t px py. FillText t px py \<in> set (picture d) \<longrightarrow>
          (\<exists>tmpl f pos. template_of templates (get_prop (design w) ''template'') = Some tmpl
             \<and> (f, t) \<in> set (cardData w) \<and> map_of tmpl f = Some pos
             \<and> px = pos_x pos \<and> py = pos_y pos))
    \<and> (\<forall>t. get_prop (design w) ''template'' = Str ''modern'' \<longrightarrow> (''name'', t) \<in> set (cardData w)
          \<longrightarrow> t \<noteq> [] \<longrightarrow> FillText t 40 60 \<in> set (picture d))"
proof -
  from assms obtain bg tx where
    bg: "drawBackground e (design w) = Some bg" and
    tx: "drawTextOnCanvas (template_of templates (get_prop (design w) ''template''))
           (get_prop (design w) ''textColor'') (cardData w) = Inr tx" and
    im: "picture d = bg @ tx" and sz: "canvas_width d = 400" "canvas_height d = 240"
    by (rule export_of_shape)
  have anchors: "\<exists>tmpl f pos. template_of templates (get_prop (design w) ''template'') = Some tmpl
             \<and> (f, t) \<in> set (cardData w) \<and> map_of tmpl f = Some pos
             \<and> px = pos_x pos \<and> py = pos_y pos"
    if "FillText t px py \<in> set (picture d)" for t px py
  proof -
    from drawBackground_shape [OF bg] have "FillText t px py \<notin> set bg"
      by auto
    with that im have "FillText t px py \<in> set tx"
      by simp
    from drawTextOnCanvas_fillText [OF tx this] show ?thesis .
  qed
  have name: "FillText t 40 60 \<in> set (picture d)"
    if "get_prop (design w) ''template'' = Str ''modern''" "(''name'', t) \<in> set (cardData w)" "t \<noteq> []"
    for t
  proof -
    have tm: "template_of templates (get_prop (design w) ''template'') = Some modern"
      using that(1) by (simp add: template_of_def templates_def)
    have pos: "map_of modern ''name'' = Some (fp 40 60 24 ''bold'' 200 30 None)"
      by (simp add: modern_def)
    from drawTextOnCanvas_draws [OF tx that(2) that(3) tm pos]
    show ?thesis
      by (simp add: im fp_def)
  qed
  from sz anchors name show ?thesis
    by blast
qed

theorem export_unscaled_witness:
  "export_of browser initial_world = Inr [initial_download]
   \<and> initial_download \<in> set [initial_download]
   \<and> get_prop (design initial_world) ''template'' = Str ''modern''
   \<and> (''name'', ''John Doe'') \<in> set (cardData initial_world)
   \<and> canvas_width initial_download = 400 \<and> canvas_height initial_download = 240
   \<and> FillText ''John Doe'' 40 60 \<in> set (picture initial_download)"
proof -
  have m: "initial_download \<in> set [initial_download]"
    by simp
  have t: "get_prop (design initial_world) ''template'' = Str ''modern''"
    by code_simp
  have n: "(''name'', ''John Doe'') \<in> set (cardData initial_world)"
    by (simp add: initial_world_def initial_cardData_def)
  from export_unscaled [OF initial_export m] t n initial_export show ?thesis
    by simp
qed

section \<open>The exported picture\<close>

text \<open>
  C6. Guide overlays are never part of the exported card: an exported file holds no
  corner dot, no outline and no rectangle other than the background, every text in it is
  the value of a card data entry (never a field label), and the file is the same whether
  the show-indicators toggle is on or off.
\<close>

theorem export_has_no_guides:
  assumes "export_of e w = Inr ds" and "d \<in> set ds"
  shows "(\<forall>op \<in> set (picture d). \<not> guide_mark op)
    \<and> (\<forall>t px py. FillText t px py \<in> set (picture d) \<longrightarrow> (\<exists>f. (f, t) \<in> set (cardData w)))
    \<and> export_of e (w\<lparr>showIndicators := b\<rparr>) = Inr ds"
proof -
  from assms obtain bg tx where
    bg: "drawBackground e (design w) = Some bg" and
    tx: "drawTextOnCanvas (template_of templates (get_prop (design w) ''template''))
           (get_prop (design w) ''textColor'') (cardData w) = Inr tx" and
    im: "picture d = bg @ tx"
    by (rule export_of_shape)
  have a: "\<not> guide_mark op" if "op \<in> set (picture d)" for op
  proof (cases "op \<in> set bg")
    case True
    with drawBackground_shape [OF bg] show ?thesis
      by auto
  next
    case False
    with that im have "op \<in> set tx"
      by simp
    from drawTextOnCanvas_text_op [OF tx this] show ?thesis
      by (rule text_op_no_guide)
  qed
  have b: "\<exists>f. (f, t) \<in> set (cardData w)" if "FillText t px py \<in> set (picture d)" for t px py
  proof -
    from drawBackground_shape [OF bg] have "FillText t px py \<notin> set bg"
      by auto
    with that im have "FillText t px py \<in> set tx"
      by simp
    from drawTextOnCanvas_fillText [OF tx this] show ?thesis
      by blast
  qed
  have "export_of e (w\<lparr>showIndicators := b\<rparr>) = export_of e w"
    by (simp add: export_of_eq cong: option.case_cong sum.case_cong)
  with assms(1) have c: "export_of e (w\<lparr>showIndicators := b\<rparr>) = Inr ds"
    by simp
  from a b c show ?thesis
    by blast
qed

theorem export_has_no_guides_witness:
  "export_of browser initial_world = Inr [initial_download]
   \<and> initial_download \<in> set [initial_download]
   \<and> filter guide_mark (picture initial_download) = []
   \<and> export_of browser (initial_world\<lparr>showIndicators := False\<rparr>) = Inr [initial_download]"
proof -
  have m: "initial_download \<in> set [initial_download]"
    by simp
  from export_has_no_guides [OF initial_export m, of False] initial_export show ?thesis
    by (simp add: filter_empty_conv)
qed

text \<open>
  C7. Every export paints in this order: first the background over the whole canvas (the
  solid colour, or the image stretched to the canvas), and only then the text. The calls
  of an exported file split into a background part that ends with the call covering the
  canvas and draws no text, and a text part that holds text calls only.
\<close>

theorem background_before_text:
  assumes "export_of e w = Inr ds" and "d \<in> set ds"
  shows "\<exists>bg tx. picture d = bg @ tx \<and> bg \<noteq> [] \<and> covers_canvas (last bg)
           \<and> (\<forall>op \<in> set bg. \<not> is_fillText op)
           \<and> (\<forall>op \<in> set tx. text_op op \<and> \<not> covers_canvas op)"
proof -
  from assms obtain bg tx where
    bg: "drawBackground e (design w) = Some bg" and
    tx: "drawTextOnCanvas (template_of templates (get_prop (design w) ''template''))
           (get_prop (design w) ''textColor'') (cardData w) = Inr tx" and
    im: "picture d = bg @ tx"
    by (rule export_of_shape)
  from drawBackground_shape [OF bg]
  have "bg \<noteq> [] \<and> covers_canvas (last bg) \<and> (\<forall>op \<in> set bg. \<not> is_fillText op)"
    by auto
  moreover have "\<forall>op \<in> set tx. text_op op \<and> \<not> covers_canvas op"
    using drawTextOnCanvas_text_op [OF tx] text_op_no_cover by blast
  ultimately show ?thesis
    using im by blast
qed

theorem background_before_text_witness:
  "export_of browser initial_world = Inr [initial_download]
   \<and> initial_download \<in> set [initial_download]
   \<and> (\<exists>bg tx. picture initial_download = bg @ tx \<and> bg \<noteq> [] \<and> covers_canvas (last bg)
           \<and> (\<forall>op \<in> set bg. \<not> is_fillText op)
           \<and> (\<forall>op \<in> set tx. text_op op \<and> \<not> covers_canvas op))"
proof -
  have m: "initial_download \<in> set [initial_download]"
    by simp
  from background_before_text [OF initial_export m] initial_export show ?thesis
    by simp
qed

text \<open>
  C8. The export is deterministic: what it draws and the file it produces are fixed by
  the card data, the design (which holds the template selection) and whether the
  preview is mounted. Two runs on states that agree on these, on the same host, make
  the identical sequence of canvas calls and produce the identical file, whatever the
  toggle, the active field or the earlier downloads are.
\<close>

theorem export_deterministic:
  assumes "cardData w1 = cardData w2" and "design w1 = design w2" and "cardRef w1 = cardRef w2"
  shows "export_of e w1 = export_of e w2"
  by (simp add: export_of_eq assms cong: option.case_cong sum.case_cong)

theorem export_deterministic_witness:
  "cardData initial_world
     = cardData (initial_world\<lparr>activeField := Some ''name'', showIndicators := False,
                    downloads := [initial_download]\<rparr>)
   \<and> design initial_world
     = design (initial_world\<lparr>activeField := Some ''name'', showIndicators := False,
                    downloads := [initial_download]\<rparr>)
   \<and> cardRef initial_world
     = cardRef (initial_world\<lparr>activeField := Some ''name'', showIndicators := False,
                    downloads := [initial_download]\<rparr>)
   \<and> export_of browser (initial_world\<lparr>activeField := Some ''name'', showIndicators := False,
                    downloads := [initial_download]\<rparr>) = Inr [initial_download]"
proof -
  have "export_of browser initial_world
      = export_of browser (initial_world\<lparr>activeField := Some ''name'', showIndicators := False,
                    downloads := [initial_download]\<rparr>)"
    by (rule export_deterministic) simp_all
  with initial_export show ?thesis
    by simp
qed

section \<open>Which fields are drawn\<close>

lemma export_of3_eq:
  "export_of3 e w =
     (if \<not> has_ctx e then Inr []
      else
        (case drawBackground e (design w) of
           None \<Rightarrow> Inr []
         | Some bg \<Rightarrow>
             (case drawFinalCard (template_of templates3 (get_prop (design w) ''template''))
                     (design w) (cardData w) of
                Inl err \<Rightarrow> Inl err
              | Inr tx \<Rightarrow>
                  (case final_filename3 (cardData w) of
                     Inl err \<Rightarrow> Inl err
                   | Inr fn \<Rightarrow>
                       Inr [\<lparr>filename = fn, canvas_width = 400, canvas_height = 240,
                             picture = bg @ tx\<rparr>]))))"
  by (simp add: export_of3_def downloadFinalCard3_def split: option.splits sum.splits)

lemma initial_export3: "export_of3 browser initial_world3 = Inr [initial_download3]"
  by code_simp

text \<open>
  With a logo set, the file the third listing exports holds the background only.
\<close>

lemma logo_export_has_no_text:
  "export_of3 browser (initial_world3\<lparr>design := AList.update ''logoImage'' (Str ''data:image/png;base64,AAAA'') initial_design3\<rparr>)
     = Inr [\<lparr>filename = ''business-card-john-doe.png'', canvas_width = 400, canvas_height = 240,
             picture = [SetFillStyle (Str ''#ffffff''), FillRect 0 0 400 240]\<rparr>]"
  by code_simp

text \<open>
  In the first listing every entry of the card data whose field the active template
  places and whose value is not empty is drawn at the field's anchor.
\<close>

lemma export_draws_every_field:
  assumes "export_of e w = Inr ds" and "d \<in> set ds"
    and "template_of templates (get_prop (design w) ''template'') = Some tmpl"
    and "map_of tmpl f = Some pos" and "(f, t) \<in> set (cardData w)" and "t \<noteq> []"
  shows "FillText t (pos_x pos) (pos_y pos) \<in> set (picture d)"
proof -
  from assms(1,2) obtain bg tx where
    tx: "drawTextOnCanvas (template_of templates (get_prop (design w) ''template''))
           (get_prop (design w) ''textColor'') (cardData w) = Inr tx" and
    im: "picture d = bg @ tx"
    by (rule export_of_shape)
  from drawTextOnCanvas_draws [OF tx assms(5) assms(6) assms(3) assms(4)] im
  show ?thesis
    by simp
qed

text \<open>
  C4. The third listing does not draw every field that the template places and that has
  a value. In its initial state the template \<^verbatim>\<open>modern\<close> places the field \<^verbatim>\<open>name\<close> at
  \<open>(40, 60)\<close> and the card data holds the name John Doe, yet the exported file holds the
  five other texts only: the test of \<^verbatim>\<open>drawText\<close> rejects the key \<^verbatim>\<open>name\<close>.
\<close>

theorem name_field_not_exported:
  "template_of templates3 (get_prop (design initial_world3) ''template'') = Some modern3
   \<and> map_of modern3 ''name'' = Some (Pos (fp 40 60 24 ''bold'' 200 30 None))
   \<and> map_of (cardData initial_world3) ''name'' = Some ''John Doe''
   \<and> export_of3 browser initial_world3 = Inr [initial_download3]
   \<and> filter is_fillText (picture initial_download3)
       = [FillText ''Creative Director'' 40 90, FillText ''Design Studio'' 40 115,
          FillText ''+1 (555) 123-4567'' 40 155, FillText ''john@designstudio.com'' 40 175,
          FillText ''www.designstudio.com'' 40 195]
   \<and> FillText ''John Doe'' 40 60 \<notin> set (picture initial_download3)"
  by code_simp

section \<open>The export file name\<close>

text \<open>
  C3, as the specification states it, fails: the file name has no widget id (nor any
  other identity of the layout) in it. The initial state and the same state with the
  \<^verbatim>\<open>classic\<close> template selected export under the same name; and the name is not made
  safe for a file system, a slash stays in it.
\<close>

theorem filename_counterexample:
  "cardData (selectTemplate ''classic'' initial_world) = cardData initial_world
   \<and> design (selectTemplate ''classic'' initial_world) \<noteq> design initial_world
   \<and> exported_names browser initial_world = Inr [''business-card-final-john-doe.png'']
   \<and> exported_names browser (selectTemplate ''classic'' initial_world)
       = Inr [''business-card-final-john-doe.png'']
   \<and> exported_names browser (handleTextChange ''name'' ''A/B  c'' initial_world)
       = Inr [''business-card-final-a/b-c.png'']"
  by code_simp

text \<open>
  C3, amended. The export file name is a function of the value of the \<^verbatim>\<open>name\<close> field
  alone: the fixed prefix \<^verbatim>\<open>business-card-final-\<close> (in the third listing
  \<^verbatim>\<open>business-card-\<close>), then the name with every run of white space replaced by one hyphen
  and put in lower case, then \<^verbatim>\<open>.png\<close>. So two exports of states with the same name
  produce the same file name, whatever the template, the design and the other fields
  are.
\<close>

theorem export_filename:
  "(export_of e w = Inr ds \<and> d \<in> set ds \<longrightarrow>
      (\<exists>n. map_of (cardData w) ''name'' = Some n
         \<and> filename d = ''business-card-final-'' @ toLowerCase (replace_spaces n) @ ''.png''))
   \<and> (export_of3 e w = Inr ds \<and> d \<in> set ds \<longrightarrow>
      (\<exists>n. map_of (cardData w) ''name'' = Some n
         \<and> filename d = ''business-card-'' @ toLowerCase (replace_spaces n) @ ''.png''))"
proof (intro conjI impI)
  assume "export_of e w = Inr ds \<and> d \<in> set ds"
  then have "final_filename (cardData w) = Inr (filename d)"
    by (auto elim: export_of_shape)
  then show "\<exists>n. map_of (cardData w) ''name'' = Some n
         \<and> filename d = ''business-card-final-'' @ toLowerCase (replace_spaces n) @ ''.png''"
    by (auto simp: final_filename_def split: option.splits)
next
  assume "export_of3 e w = Inr ds \<and> d \<in> set ds"
  then have "final_filename3 (cardData w) = Inr (filename d)"
    unfolding export_of3_eq
    by (auto split: if_splits option.splits sum.splits)
  then show "\<exists>n. map_of (cardData w) ''name'' = Some n
         \<and> filename d = ''business-card-'' @ toLowerCase (replace_spaces n) @ ''.png''"
    by (auto simp: final_filename3_def split: option.splits)
qed

theorem export_filename_witness:
  "export_of browser initial_world = Inr [initial_download]
   \<and> initial_download \<in> set [initial_download]
   \<and> export_of3 browser initial_world3 = Inr [initial_download3]
   \<and> initial_download3 \<in> set [initial_download3]
   \<and> (\<exists>n. map_of (cardData initial_world) ''name'' = Some n
         \<and> filename initial_download = ''business-card-final-'' @ toLowerCase (replace_spaces n) @ ''.png'')
   \<and> (\<exists>n. map_of (cardData initial_world3) ''name'' = Some n
         \<and> filename initial_download3 = ''business-card-'' @ toLowerCase (replace_spaces n) @ ''.png'')"
  using export_filename [of browser initial_world "[initial_download]" initial_download]
    export_filename [of browser initial_world3 "[initial_download3]" initial_download3]
    initial_export initial_export3
  by simp

section \<open>Frame properties of the handlers and of the export\<close>

text \<open>
  C10. A single-field mutation touches one entry only: \<^verbatim>\<open>handleTextChange(f, v)\<close> sets
  entry \<open>f\<close> of the card data to \<open>v\<close>, leaves every other entry of the card data as it
  was and leaves the design as it was; \<^verbatim>\<open>handleColorChange(k, c)\<close> sets entry \<open>k\<close> of the
  design to \<open>c\<close>, leaves every other design entry as it was and leaves the card data as
  it was.
\<close>

theorem handlers_frame:
  "map_of (cardData (handleTextChange f v w)) = (map_of (cardData w))(f \<mapsto> v)
   \<and> design (handleTextChange f v w) = design w
   \<and> map_of (design (handleColorChange k c w)) = (map_of (design w))(k \<mapsto> Str c)
   \<and> cardData (handleColorChange k c w) = cardData w"
  by (simp add: handleTextChange_def handleColorChange_def update_conv')

text \<open>
  C5. Exporting the final card never changes the editing state: whenever the export
  returns, the card data and the design are what they were when it was called. (When it
  throws, no state is written at all.)
\<close>

theorem export_keeps_state:
  "downloadFinalCard e w = Inr w' \<Longrightarrow> cardData w' = cardData w \<and> design w' = design w"
  by (auto simp: downloadFinalCard_def split: if_splits option.splits sum.splits)

theorem export_keeps_state_witness:
  "downloadFinalCard browser initial_world = Inr (initial_world\<lparr>downloads := [initial_download]\<rparr>)
   \<and> cardData (initial_world\<lparr>downloads := [initial_download]\<rparr>) = cardData initial_world
   \<and> design (initial_world\<lparr>downloads := [initial_download]\<rparr>) = design initial_world"
  using export_keeps_state [OF initial_run] initial_run by simp

section \<open>Undo and redo\<close>

lemma timeline_undo: "timeline (undo t s) = timeline s"
  by (cases "past s") (simp_all add: undo_def timeline_def snapshot_def snap_content_def)

lemma timeline_redo: "timeline (redo t s) = timeline s"
  by (cases "future s") (simp_all add: redo_def timeline_def snapshot_def snap_content_def)

lemma timeline_undos: "timeline (undos ts s) = timeline s"
  by (induction ts arbitrary: s) (simp_all add: timeline_undo)

lemma future_undo_length: "length (future (undo t s)) \<le> Suc (length (future s))"
  by (cases "past s") (simp_all add: undo_def)

lemma future_undos_length: "length (future (undos ts s)) \<le> length ts + length (future s)"
proof (induction ts arbitrary: s)
  case Nil
  then show ?case by simp
next
  case (Cons t ts)
  have "length (future (undos ts (undo t s))) \<le> length ts + length (future (undo t s))"
    by (rule Cons.IH)
  also have "\<dots> \<le> length ts + Suc (length (future s))"
    using future_undo_length [of t s] by simp
  finally show ?case by simp
qed

lemma undo_keeps: "status (undo t s) = status s \<and> isDirty (undo t s) = isDirty s"
  by (cases "past s") (simp_all add: undo_def)

lemma redo_keeps: "status (redo t s) = status s \<and> isDirty (redo t s) = isDirty s"
  by (cases "future s") (simp_all add: redo_def)

lemma undos_keeps: "status (undos ts s) = status s \<and> isDirty (undos ts s) = isDirty s"
  by (induction ts arbitrary: s) (simp_all add: undo_keeps)

lemma redos_keeps: "status (redos ts s) = status s \<and> isDirty (redos ts s) = isDirty s"
  by (induction ts arbitrary: s) (simp_all add: redo_keeps)

lemma redos_all:
  "length (future s) \<le> length ts \<Longrightarrow>
     future (redos ts s) = [] \<and>
     rev (map snap_content (past (redos ts s))) @ [(fieldValues (redos ts s), designState (redos ts s))]
       = timeline s"
proof (induction ts arbitrary: s)
  case Nil
  then show ?case by (simp add: timeline_def)
next
  case (Cons t ts)
  have "length (future (redo t s)) \<le> length ts"
    using Cons.prems by (cases "future s") (simp_all add: redo_def)
  from Cons.IH [OF this] show ?case
    by (simp add: timeline_redo)
qed

lemma undo_redo_restores:
  assumes "future s = []" and "length us \<le> length rs"
  shows "forget_times (redos rs (undos us s)) = forget_times s"
proof -
  let ?u = "undos us s" and ?r = "redos rs (undos us s)"
  have "length (future ?u) \<le> length rs"
    using future_undos_length [of us s] assms by simp
  from redos_all [OF this]
  have f: "future ?r = []"
    and t: "rev (map snap_content (past ?r)) @ [(fieldValues ?r, designState ?r)] = timeline ?u"
    by simp_all
  have "timeline ?u = timeline s"
    by (rule timeline_undos)
  also have "\<dots> = rev (map snap_content (past s)) @ [(fieldValues s, designState s)]"
    using assms(1) by (simp add: timeline_def)
  finally have "timeline ?u = rev (map snap_content (past s)) @ [(fieldValues s, designState s)]" .
  with t have "map snap_content (past ?r) = map snap_content (past s)
      \<and> fieldValues ?r = fieldValues s \<and> designState ?r = designState s"
    by simp
  with f assms(1) show ?thesis
    by (simp add: forget_times_def redos_keeps undos_keeps)
qed

lemma future_mutate: "future (mutate cap m s) = []"
  by (cases m; cases "snd m") (auto simp: updateFields_def updateDesign_def pushHistory_def)

lemma future_mutate_all: "future s = [] \<Longrightarrow> future (mutate_all cap ms s) = []"
  by (induction ms arbitrary: s) (simp_all add: future_mutate)

text \<open>
  C9. Start from an initialized state and apply any \<open>N\<close> field or design mutations. Then
  \<open>N\<close> undos followed by \<open>N\<close> redos restore the state reached after the \<open>N\<close>th mutation:
  the same field values and design, and the same status, dirty flag and history stacks
  (the snapshots that went through the future stack carry new timestamps). Undo with an
  empty past stack does nothing, and redo with an empty future stack does nothing.
\<close>

theorem undo_redo_symmetry:
  assumes "s = mutate_all cap ms (initialize tinit fs ds)"
    and "length us = length ms" and "length rs = length ms"
  shows "forget_times (redos rs (undos us s)) = forget_times s
    \<and> fieldValues (redos rs (undos us s)) = fieldValues s
    \<and> designState (redos rs (undos us s)) = designState s
    \<and> (past s' = [] \<longrightarrow> undo t s' = s')
    \<and> (future s' = [] \<longrightarrow> redo t s' = s')"
proof -
  have "future s = []"
    unfolding assms(1) by (rule future_mutate_all) (simp add: initialize_def)
  then have r: "forget_times (redos rs (undos us s)) = forget_times s"
    by (rule undo_redo_restores) (simp add: assms)
  then have "fieldValues (redos rs (undos us s)) = fieldValues s
    \<and> designState (redos rs (undos us s)) = designState s"
    by (simp add: forget_times_def)
  with r show ?thesis
    by (simp add: undo_def redo_def)
qed

theorem undo_redo_symmetry_witness:
  "length [3, 4 :: nat] = length [(1 :: nat, UpdateFields [(''name'', ''Avery Chen'')]), (2, UpdateDesign [(''textColor'', ''#000000'')])]
   \<and> length [5, 6 :: nat] = length [(1 :: nat, UpdateFields [(''name'', ''Avery Chen'')]), (2, UpdateDesign [(''textColor'', ''#000000'')])]
   \<and> fieldValues (redos [5, 6] (undos [3, 4] (mutate_all (Some 2)
         [(1, UpdateFields [(''name'', ''Avery Chen'')]), (2, UpdateDesign [(''textColor'', ''#000000'')])]
         (initialize 0 [(''name'', ''John Doe'')] [(''textColor'', ''#1e293b'')]))))
       = [(''name'', ''Avery Chen'')]
   \<and> designState (redos [5, 6] (undos [3, 4] (mutate_all (Some 2)
         [(1, UpdateFields [(''name'', ''Avery Chen'')]), (2, UpdateDesign [(''textColor'', ''#000000'')])]
         (initialize 0 [(''name'', ''John Doe'')] [(''textColor'', ''#1e293b'')]))))
       = [(''textColor'', ''#000000'')]
   \<and> past ((initialize 0 [] [])\<lparr>past := []\<rparr>) = []
   \<and> future ((initialize 0 [] [])\<lparr>past := []\<rparr>) = []
   \<and> undo 7 ((initialize 0 [] [])\<lparr>past := []\<rparr>) = (initialize 0 [] [])\<lparr>past := []\<rparr>
   \<and> redo 7 ((initialize 0 [] [])\<lparr>past := []\<rparr>) = (initialize 0 [] [])\<lparr>past := []\<rparr>"
proof -
  have p: "past ((initialize 0 [] [])\<lparr>past := []\<rparr>) = []"
    and f: "future ((initialize 0 [] [])\<lparr>past := []\<rparr>) = []"
    by (simp_all add: initialize_def)
  have m: "fieldValues (mutate_all (Some 2)
         [(1, UpdateFields [(''name'', ''Avery Chen'')]), (2, UpdateDesign [(''textColor'', ''#000000'')])]
         (initialize 0 [(''name'', ''John Doe'')] [(''textColor'', ''#1e293b'')])) = [(''name'', ''Avery Chen'')]
    \<and> designState (mutate_all (Some 2)
         [(1, UpdateFields [(''name'', ''Avery Chen'')]), (2, UpdateDesign [(''textColor'', ''#000000'')])]
         (initialize 0 [(''name'', ''John Doe'')] [(''textColor'', ''#1e293b'')])) = [(''textColor'', ''#000000'')]"
    by code_simp
  from undo_redo_symmetry [where us = "[3, 4]"
      and ms = "[(1, UpdateFields [(''name'', ''Avery Chen'')]), (2, UpdateDesign [(''textColor'', ''#000000'')])]"
      and rs = "[5, 6]" and s' = "(initialize 0 [] [])\<lparr>past := []\<rparr>" and t = 7
      and cap = "Some 2" and tinit = 0
      and fs = "[(''name'', ''John Doe'')]" and ds = "[(''textColor'', ''#1e293b'')]", OF refl] p f m
  show ?thesis
    by simp
qed

end
